theory Spec2Isabelle
  imports Main
begin

section \<open>Python values\<close>

text \<open>
  The payloads, events and outbound messages of the service are untyped Python values
  (what \<^verbatim>\<open>json.loads\<close> and the MI parser produce). A dict is an association list in
  insertion order; every dict built here has distinct keys. Strings are Python \<^verbatim>\<open>str\<close>
  values, one \<^typ>\<open>char\<close> per character. Floats do not occur.
\<close>

datatype json =
    JNone
  | JBool bool
  | JInt int
  | JStr string
  | JList "json list"
  | JDict "(string \<times> json) list"

text \<open>Python truthiness (\<^verbatim>\<open>if x:\<close>).\<close>

fun truthy :: "json \<Rightarrow> bool" where
  "truthy JNone = False"
| "truthy (JBool b) = b"
| "truthy (JInt i) = (i \<noteq> 0)"
| "truthy (JStr s) = (s \<noteq> [])"
| "truthy (JList xs) = (xs \<noteq> [])"
| "truthy (JDict kvs) = (kvs \<noteq> [])"

datatype exn_kind = AttributeError | TypeError | KeyError | FileNotFoundError | OSError | OtherError

text \<open>An exception: its class and its message (\<^verbatim>\<open>str(e)\<close>).\<close>

datatype exn = Exn exn_kind string



fun type_name :: "json \<Rightarrow> string" where
  "type_name JNone = ''NoneType''"
| "type_name (JBool b) = ''bool''"
| "type_name (JInt i) = ''int''"
| "type_name (JStr s) = ''str''"
| "type_name (JList xs) = ''list''"
| "type_name (JDict kvs) = ''dict''"

definition no_attribute :: "json \<Rightarrow> string \<Rightarrow> exn" where
  "no_attribute v a =
     Exn AttributeError ([CHR 0x27] @ type_name v @ [CHR 0x27] @ '' object has no attribute ''
                          @ [CHR 0x27] @ a @ [CHR 0x27])"

text \<open>\<^verbatim>\<open>d.get(k, default)\<close> on a dict, and on any value: only a dict has the method.\<close>

definition dict_get :: "(string \<times> json) list \<Rightarrow> string \<Rightarrow> json \<Rightarrow> json" where
  "dict_get kvs k d = (case map_of kvs k of Some v \<Rightarrow> v | None \<Rightarrow> d)"

fun py_get :: "json \<Rightarrow> string \<Rightarrow> json \<Rightarrow> exn + json" where
  "py_get (JDict kvs) k d = Inr (dict_get kvs k d)"
| "py_get v k d = Inl (no_attribute v ''get'')"

text \<open>
  \<^verbatim>\<open>f"{x}"\<close>: \<^verbatim>\<open>str\<close> is the identity on a string; on every other value it is Python's
  built-in conversion, taken as the parameter \<open>str\<close>.
\<close>

fun py_format :: "(json \<Rightarrow> string) \<Rightarrow> json \<Rightarrow> string" where
  "py_format str (JStr s) = s"
| "py_format str v = str v"

section \<open>The process channel (\<^verbatim>\<open>NativeGDBController\<close>) and the outside world\<close>

record controller =
  process :: "nat option"
  running :: bool
  master_fd :: "int option"

datatype proc_signal = Terminate nat | Kill nat

text \<open>
  The effects of the service, as traces: frames accepted by \<^verbatim>\<open>websocket.send\<close> (transport,
  data; \<^verbatim>\<open>json.dumps\<close> is injective and the data stands for its text), \<^verbatim>\<open>close()\<close> calls on
  transports, \<^verbatim>\<open>os.write\<close> calls (descriptor, text before \<^verbatim>\<open>encode()\<close>), \<^verbatim>\<open>os.close\<close> calls
  and signals sent to the subprocess. Two oracles stand for what the environment answers:
  \<open>send_oracle\<close> holds the outcomes of the coming \<^verbatim>\<open>websocket.send\<close> calls (\<open>False\<close>: the call
  raises; past its end every call succeeds) and \<open>clock\<close> the coming readings of
  \<^verbatim>\<open>datetime.now(...).isoformat()\<close>.
\<close>

record world =
  sent :: "(nat \<times> json) list"
  ws_closed :: "nat list"
  pty_out :: "(int \<times> string) list"
  fd_closed :: "int list"
  signalled :: "proc_signal list"
  send_oracle :: "bool list"
  clock :: "string list"

text \<open>\<^verbatim>\<open>__init__\<close>\<close>

definition new_controller :: controller where
  "new_controller = \<lparr>process = None, running = True, master_fd = None\<rparr>"

text \<open>\<^verbatim>\<open>if self.master_fd:\<close> (\<^verbatim>\<open>None\<close> and descriptor 0 are falsy).\<close>

definition is_open :: "controller \<Rightarrow> bool" where
  "is_open c = (case master_fd c of None \<Rightarrow> False | Some fd \<Rightarrow> fd \<noteq> 0)"

definition newline :: char where
  "newline = CHR 0x0A"

text \<open>\<^verbatim>\<open>write\<close>\<close>

fun write_command :: "string \<Rightarrow> controller \<times> world \<Rightarrow> controller \<times> world" where
  "write_command command (c, w) =
     (case master_fd c of
        None \<Rightarrow> (c, w)
      | Some fd \<Rightarrow>
          if fd \<noteq> 0 then (c, w\<lparr>pty_out := pty_out w @ [(fd, command @ [newline])]\<rparr>)
          else (c, w))"

section \<open>The session (\<^verbatim>\<open>GDBSession\<close>)\<close>

text \<open>
  Every method is a function on the pair of a session and the world. A coroutine is
  modelled as running from its call to its return with no other one in between.
  \<^verbatim>\<open>os.write\<close> and \<^verbatim>\<open>os.close\<close> are recorded as calls; calls to the logger are left out.
\<close>

text \<open>\<open>location\<close> is \<^verbatim>\<open>None\<close> or the three-key dict that \<^verbatim>\<open>on_gdb_event\<close> builds.\<close>

record loc =
  loc_file :: json
  loc_line :: json
  loc_func :: json

record session =
  session_id :: string
  wrapper :: controller
  status :: string
  stack :: json
  variables :: json
  location :: "loc option"
  websocket :: "nat option"
  log_history :: "json list"

definition new_session :: "string \<Rightarrow> session" where
  "new_session sid =
     \<lparr>session_id = sid, wrapper = new_controller, status = ''Ready'', stack = JList [],
      variables = JList [], location = None, websocket = None, log_history = []\<rparr>"

definition location_json :: "loc option \<Rightarrow> json" where
  "location_json l =
     (case l of
        None \<Rightarrow> JNone
      | Some x \<Rightarrow> JDict [(''file'', loc_file x), (''line'', loc_line x), (''func'', loc_func x)])"

definition to_dict :: "session \<Rightarrow> json" where
  "to_dict s =
     JDict [(''type'', JStr ''state_update''),
            (''payload'', JDict [(''status'', JStr (status s)),
                                 (''location'', location_json (location s)),
                                 (''stack'', stack s),
                                 (''variables'', variables s)])]"

text \<open>One \<^verbatim>\<open>websocket.send\<close> call: the environment's answer, and the oracle advanced.\<close>

fun next_send :: "world \<Rightarrow> bool \<times> world" where
  "next_send w =
     (case send_oracle w of
        [] \<Rightarrow> (True, w)
      | ok # rest \<Rightarrow> (ok, w\<lparr>send_oracle := rest\<rparr>))"

fun send_json :: "json \<Rightarrow> session \<times> world \<Rightarrow> session \<times> world" where
  "send_json data (s, w) =
     (case websocket s of
        None \<Rightarrow> (s, w)
      | Some ws \<Rightarrow>
          (case next_send w of
             (True, w') \<Rightarrow> (s, w'\<lparr>sent := sent w' @ [(ws, data)]\<rparr>)
           | (False, w') \<Rightarrow> (s\<lparr>websocket := None\<rparr>, w')))"





fun now :: "world \<Rightarrow> string \<times> world" where
  "now w = (case clock w of [] \<Rightarrow> ([], w) | t # ts \<Rightarrow> (t, w\<lparr>clock := ts\<rparr>))"

definition log_msg :: "string \<Rightarrow> string \<Rightarrow> string \<Rightarrow> json" where
  "log_msg level text ts =
     JDict [(''type'', JStr ''log_event''),
            (''payload'', JDict [(''level'', JStr level), (''text'', JStr text),
                                 (''timestamp'', JStr ts)])]"

text \<open>\<^verbatim>\<open>append\<close>, then \<^verbatim>\<open>pop(0)\<close> when the list has more than 50 entries.\<close>

definition push_history :: "json \<Rightarrow> json list \<Rightarrow> json list" where
  "push_history msg h = (let h1 = h @ [msg] in if length h1 > 50 then tl h1 else h1)"

fun log :: "string \<Rightarrow> string \<Rightarrow> session \<times> world \<Rightarrow> session \<times> world" where
  "log level text (s, w) =
     (case now w of
        (ts, w1) \<Rightarrow>
          (let msg = log_msg level text ts
           in send_json msg (s\<lparr>log_history := push_history msg (log_history s)\<rparr>, w1)))"

text \<open>\<^verbatim>\<open>await self.wrapper.write(command)\<close>, on the session's own channel.\<close>

fun wrapper_write :: "string \<Rightarrow> session \<times> world \<Rightarrow> session \<times> world" where
  "wrapper_write command (s, w) =
     (case write_command command (wrapper s, w) of (c, w') \<Rightarrow> (s\<lparr>wrapper := c\<rparr>, w'))"

section \<open>Starting and stopping the subprocess\<close>

text \<open>
  What the operating system answers during one call: \<^verbatim>\<open>pty.openpty()\<close> (master, slave),
  \<^verbatim>\<open>os.path.exists\<close>, \<^verbatim>\<open>subprocess.Popen\<close> (the process id), and whether
  \<^verbatim>\<open>terminate()\<close> followed by \<^verbatim>\<open>wait(timeout=1)\<close> ends without an exception.
\<close>

record os_env =
  openpty :: "exn + int \<times> int"
  path_exists :: "json \<Rightarrow> exn + bool"
  popen :: "json list \<Rightarrow> exn + nat"
  wait_ok :: bool

definition gdb_cmd :: "json list" where
  "gdb_cmd = [JStr ''gdb'', JStr ''--nx'', JStr ''--quiet'', JStr ''--interpreter=mi3'',
              JStr ''--eval-command=set debuginfod enabled off'']"

text \<open>The command line, or the exception of the existence check.\<close>

definition start_cmd :: "(json \<Rightarrow> string) \<Rightarrow> os_env \<Rightarrow> json \<Rightarrow> exn + json list" where
  "start_cmd str os executable =
     (if truthy executable then
        (case path_exists os executable of
           Inl e \<Rightarrow> Inl e
         | Inr found \<Rightarrow>
             if \<not> found
             then Inl (Exn FileNotFoundError (''Binary not found: '' @ py_format str executable))
             else Inr (gdb_cmd @ [executable]))
      else Inr gdb_cmd)"

fun start :: "(json \<Rightarrow> string) \<Rightarrow> os_env \<Rightarrow> json \<Rightarrow> controller \<times> world
                \<Rightarrow> exn option \<times> controller \<times> world" where
  "start str os executable (c, w) =
     (case openpty os of
        Inl e \<Rightarrow> (Some e, c, w)
      | Inr (m, slave_fd) \<Rightarrow>
          (let c1 = c\<lparr>master_fd := Some m\<rparr>
           in case start_cmd str os executable of
                Inl e \<Rightarrow> (Some e, c1, w)
              | Inr cmd \<Rightarrow>
                  (case popen os cmd of
                     Inl e \<Rightarrow>
                       (Some e, c1,
                        w\<lparr>fd_closed := fd_closed w @ [slave_fd] @ (if m \<noteq> 0 then [m] else [])\<rparr>)
                   | Inr pid \<Rightarrow>
                       (None, c1\<lparr>process := Some pid, running := True\<rparr>,
                        w\<lparr>fd_closed := fd_closed w @ [slave_fd]\<rparr>))))"


section \<open>The protocol parser (\<^verbatim>\<open>_parse_line\<close>)\<close>

text \<open>\<^verbatim>\<open>s.replace(old, new)\<close> for a pattern \<open>old\<close> of the two characters \<open>a\<close>, \<open>b\<close>.\<close>

fun replace2 :: "char \<Rightarrow> char \<Rightarrow> string \<Rightarrow> string \<Rightarrow> string" where
  "replace2 a b new (x # y # zs) =
     (if x = a \<and> y = b then new @ replace2 a b new zs else x # replace2 a b new (y # zs))"
| "replace2 a b new xs = xs"

definition unescape :: "string \<Rightarrow> string" where
  "unescape content =
     replace2 (CHR 0x5C) (CHR ''n'') [newline] (replace2 (CHR 0x5C) (CHR 0x22) [CHR 0x22] content)"

text \<open>
  \<^verbatim>\<open>parsed[k]\<close>; \<open>None\<close> when the subscript raises (a missing key, a value that is no
  dict): the parser's bare \<^verbatim>\<open>except\<close> turns every exception into \<^verbatim>\<open>None\<close>.
\<close>

fun py_item :: "json \<Rightarrow> string \<Rightarrow> json option" where
  "py_item (JDict kvs) k = map_of kvs k"
| "py_item v k = None"

definition has_key :: "(string \<times> json) list \<Rightarrow> string \<Rightarrow> bool" where
  "has_key kvs k = (map_of kvs k \<noteq> None)"

definition retag :: "json \<Rightarrow> json \<Rightarrow> json" where
  "retag payload msg =
     (case payload of
        JDict kvs \<Rightarrow>
          if has_key kvs ''stack'' then JStr ''stack''
          else if has_key kvs ''locals'' then JStr ''locals''
          else msg
      | _ \<Rightarrow> msg)"

text \<open>
  \<open>parse_response\<close> is \<^verbatim>\<open>pygdbmi.gdbmiparser.parse_response\<close>, a library function taken as
  a parameter (\<open>None\<close>: it raised).
\<close>

definition parse_line :: "(string \<Rightarrow> json option) \<Rightarrow> string \<Rightarrow> json option" where
  "parse_line parse_response line =
     (case parse_response line of
        None \<Rightarrow> None
      | Some parsed \<Rightarrow>
          if \<not> truthy parsed then None
          else
            (case py_item parsed ''type'' of
               None \<Rightarrow> None
             | Some ty \<Rightarrow>
                 if ty = JStr ''console'' then
                   (case py_item parsed ''payload'' of
                      None \<Rightarrow> None
                    | Some content \<Rightarrow>
                        if truthy content then
                          (case content of
                             JStr c \<Rightarrow>
                               Some (JDict [(''type'', JStr ''console''),
                                            (''payload'', JStr (unescape c))])
                           | _ \<Rightarrow> None)
                        else None)
                 else if ty = JStr ''notify'' then
                   (case (py_item parsed ''message'', py_item parsed ''payload'') of
                      (Some m, Some p) \<Rightarrow>
                        Some (JDict [(''type'', JStr ''notify''), (''message'', m), (''payload'', p)])
                    | _ \<Rightarrow> None)
                 else if ty = JStr ''result'' then
                   (case (py_item parsed ''message'', py_item parsed ''payload'',
                          py_item parsed ''token'') of
                      (Some msg, Some payload, Some token) \<Rightarrow>
                        (let res = [(''type'', JStr ''result''), (''message'', retag payload msg),
                                    (''payload'', payload)]
                         in Some (JDict (if truthy token then res @ [(''token'', token)] else res)))
                    | _ \<Rightarrow> None)
                 else if ty = JStr ''output'' then None
                 else Some parsed))"

section \<open>Events (\<^verbatim>\<open>on_gdb_event\<close>)\<close>

text \<open>\<^verbatim>\<open>a or b\<close>\<close>

definition py_or :: "json \<Rightarrow> json \<Rightarrow> json" where
  "py_or a b = (if truthy a then a else b)"

fun show_nat :: "nat \<Rightarrow> string" where
  "show_nat n =
     (if n < 10 then [''0123456789'' ! n]
      else show_nat (n div 10) @ [''0123456789'' ! (n mod 10)])"

definition not_iterable :: "json \<Rightarrow> exn" where
  "not_iterable v = Exn TypeError ([CHR 0x27] @ type_name v @ [CHR 0x27] @ '' object is not iterable'')"

text \<open>\<^verbatim>\<open>[m.get(k, d) for m in ms]\<close>\<close>

fun get_all :: "json list \<Rightarrow> string \<Rightarrow> json \<Rightarrow> exn + json list" where
  "get_all [] k d = Inr []"
| "get_all (m # ms) k d =
     (case py_get m k d of
        Inl e \<Rightarrow> Inl e
      | Inr v \<Rightarrow> (case get_all ms k d of Inl e \<Rightarrow> Inl e | Inr vs \<Rightarrow> Inr (v # vs)))"

text \<open>\<^verbatim>\<open>"".join(xs)\<close>, \<open>i\<close> being the index of the head of \<open>xs\<close> in the whole list.\<close>

fun join_from :: "nat \<Rightarrow> json list \<Rightarrow> exn + string" where
  "join_from i [] = Inr []"
| "join_from i (JStr s # xs) =
     (case join_from (Suc i) xs of Inl e \<Rightarrow> Inl e | Inr r \<Rightarrow> Inr (s @ r))"
| "join_from i (v # xs) =
     Inl (Exn TypeError (''sequence item '' @ show_nat i @ '': expected str instance, ''
                          @ type_name v @ '' found''))"

text \<open>
  Token 401: the contents and the address of \<^verbatim>\<open>mem = payload.get('memory', [])\<close>. A truthy
  \<open>mem\<close> is iterated: a string yields its characters and a dict its keys, which have no
  \<^verbatim>\<open>get\<close>; a number is not iterable.
\<close>

fun memory_of :: "json \<Rightarrow> exn + json \<times> json" where
  "memory_of (JList (m0 # ms)) =
     (case get_all (m0 # ms) ''contents'' (JStr []) of
        Inl e \<Rightarrow> Inl e
      | Inr cs \<Rightarrow>
          (case join_from 0 cs of
             Inl e \<Rightarrow> Inl e
           | Inr contents \<Rightarrow>
               (case py_get m0 ''begin'' (JStr ''0x0'') of
                  Inl e \<Rightarrow> Inl e
                | Inr address \<Rightarrow> Inr (address, JStr contents))))"
| "memory_of (JStr (c # cs)) = Inl (no_attribute (JStr [c]) ''get'')"
| "memory_of (JDict ((k, v) # kvs)) = Inl (no_attribute (JStr k) ''get'')"
| "memory_of (JInt i) = (if i \<noteq> 0 then Inl (not_iterable (JInt i)) else Inr (JStr ''0x0'', JStr []))"
| "memory_of (JBool b) = (if b then Inl (not_iterable (JBool b)) else Inr (JStr ''0x0'', JStr []))"
| "memory_of v = Inr (JStr ''0x0'', JStr [])"

definition error_message :: "json \<Rightarrow> json" where
  "error_message error_msg = JDict [(''type'', JStr ''error''), (''payload'', error_msg)]"

text \<open>\<^verbatim>\<open>if frame: self.location = {...}\<close>\<close>

definition set_location :: "json \<Rightarrow> session \<Rightarrow> exn + session" where
  "set_location frame s =
     (if truthy frame then
        (case frame of
           JDict kvs \<Rightarrow>
             Inr (s\<lparr>location := Some \<lparr>loc_file = dict_get kvs ''file'' JNone,
                                      loc_line = dict_get kvs ''line'' JNone,
                                      loc_func = dict_get kvs ''func'' JNone\<rparr>\<rparr>)
         | _ \<Rightarrow> Inl (no_attribute frame ''get''))
      else Inr s)"

definition paused_text :: "(json \<Rightarrow> string) \<Rightarrow> json \<Rightarrow> loc option \<Rightarrow> string" where
  "paused_text str reason l =
     ''[Paused] '' @ py_format str reason @
     (case l of
        None \<Rightarrow> []
      | Some x \<Rightarrow> '' at '' @ py_format str (loc_file x) @ '':'' @ py_format str (loc_line x))"

text \<open>The branch of a \<^verbatim>\<open>stopped\<close> notification.\<close>

fun on_stopped :: "(json \<Rightarrow> string) \<Rightarrow> json \<Rightarrow> session \<times> world
                     \<Rightarrow> exn option \<times> session \<times> world" where
  "on_stopped str payload (s, w) =
     (case py_get payload ''reason'' JNone of
        Inl e \<Rightarrow> (Some e, s, w)
      | Inr reason \<Rightarrow>
          if reason = JStr ''exited-normally'' \<or> reason = JStr ''exited'' then
            (let s1 = s\<lparr>status := ''Exited'', location := None, stack := JList [],
                        variables := JList []\<rparr>
             in (None, log ''info'' (''[Exited] Reason: '' @ py_format str reason)
                         (send_json (to_dict s1) (s1, w))))
          else
            (let s1 = s\<lparr>status := ''Paused''\<rparr>
             in case py_get payload ''frame'' (JDict []) of
                  Inl e \<Rightarrow> (Some e, s1, w)
                | Inr frame \<Rightarrow>
                    (case set_location frame s1 of
                       Inl e \<Rightarrow> (Some e, s1, w)
                     | Inr s2 \<Rightarrow>
                         (case send_json (to_dict s2) (s2, w) of
                            (s3, w3) \<Rightarrow>
                              (None,
                               wrapper_write ''102-stack-list-locals --simple-values''
                                 (wrapper_write ''101-stack-list-frames''
                                    (log ''info'' (paused_text str reason (location s3))
                                       (s3, w3))))))))"

definition on_notify :: "(json \<Rightarrow> string) \<Rightarrow> json \<Rightarrow> json \<Rightarrow> session \<times> world
                           \<Rightarrow> exn option \<times> session \<times> world" where
  "on_notify str msg payload st =
     (if msg = JStr ''running'' then
        (case st of
           (s, w) \<Rightarrow>
             (let s1 = s\<lparr>status := ''Running'', location := None, stack := JList [],
                         variables := JList []\<rparr>
              in (None, log ''info'' ''[Running]'' (send_json (to_dict s1) (s1, w)))))
      else if msg = JStr ''stopped'' then on_stopped str payload st
      else (None, st))"

text \<open>The token branches of a result whose payload is the dict \<open>kvs\<close>.\<close>

fun on_token :: "json \<Rightarrow> (string \<times> json) list \<Rightarrow> session \<times> world
                   \<Rightarrow> exn option \<times> session \<times> world" where
  "on_token token kvs (s, w) =
     (if token = JInt 101 then
        (let s1 = s\<lparr>stack := dict_get kvs ''stack'' (JList [])\<rparr>
         in (None, send_json (to_dict s1) (s1, w)))
      else if token = JInt 102 then
        (let s1 = s\<lparr>variables := dict_get kvs ''locals'' (JList [])\<rparr>
         in (None, send_json (to_dict s1) (s1, w)))
      else if token = JInt 201 then
        (let bkpt = dict_get kvs ''bkpt'' (JDict [])
         in if truthy bkpt then
              (case bkpt of
                 JDict b \<Rightarrow>
                   (None,
                    send_json
                      (JDict [(''type'', JStr ''breakpoint_created''),
                              (''payload'',
                               JDict [(''id'', dict_get b ''number'' JNone),
                                      (''file'', py_or (dict_get b ''fullname'' JNone)
                                                       (dict_get b ''file'' JNone)),
                                      (''line'', dict_get b ''line'' JNone)])])
                      (s, w))
               | _ \<Rightarrow> (Some (no_attribute bkpt ''get''), s, w))
            else (None, s, w))
      else if token = JInt 301 then
        (None,
         send_json
           (JDict [(''type'', JStr ''var_created''),
                   (''payload'',
                    JDict [(''name'', dict_get kvs ''name'' JNone),
                           (''numchild'', dict_get kvs ''numchild'' JNone),
                           (''value'', dict_get kvs ''value'' JNone),
                           (''type'', dict_get kvs ''type'' JNone)])])
           (s, w))
      else if token = JInt 302 then
        (None,
         send_json
           (JDict [(''type'', JStr ''var_children''),
                   (''payload'', JDict [(''children'', dict_get kvs ''children'' (JList []))])])
           (s, w))
      else if token = JInt 401 then
        (case memory_of (dict_get kvs ''memory'' (JList [])) of
           Inl e \<Rightarrow> (Some e, s, w)
         | Inr (address, contents) \<Rightarrow>
             (None,
              send_json
                (JDict [(''type'', JStr ''memory_read''),
                        (''payload'', JDict [(''address'', address), (''contents'', contents)])])
                (s, w)))
      else (None, s, w))"

text \<open>The \<^verbatim>\<open># Error Handling\<close> block that ends the result branch.\<close>

definition on_result_error :: "(json \<Rightarrow> string) \<Rightarrow> json \<Rightarrow> (string \<times> json) list
                                 \<Rightarrow> session \<times> world \<Rightarrow> session \<times> world" where
  "on_result_error str msg kvs st =
     (if truthy (dict_get kvs ''msg'' JNone) \<and> \<not> truthy (dict_get kvs ''bkpt'' JNone)
         \<and> \<not> truthy (dict_get kvs ''name'' JNone) \<and> \<not> truthy (dict_get kvs ''children'' JNone)
      then
        (let error_msg = dict_get kvs ''msg'' JNone
         in send_json (error_message error_msg)
              (log ''error'' (''GDB Error: '' @ py_format str error_msg) st))
      else if msg = JStr ''error'' then
        (let error_msg = dict_get kvs ''msg'' (JStr ''Unknown Error'')
         in send_json (error_message error_msg)
              (log ''error'' (''Error: '' @ py_format str error_msg) st))
      else st)"

text \<open>
  The result branch. Every path through it starts with a \<^verbatim>\<open>payload.get\<close>, so a payload that
  is no dict (\<^verbatim>\<open>None\<close> for a bare \<^verbatim>\<open>^done\<close>) raises before anything has changed.
\<close>

definition on_result :: "(json \<Rightarrow> string) \<Rightarrow> json \<Rightarrow> json \<Rightarrow> json \<Rightarrow> session \<times> world
                           \<Rightarrow> exn option \<times> session \<times> world" where
  "on_result str token msg payload st =
     (case payload of
        JDict kvs \<Rightarrow>
          (case on_token token kvs st of
             (Some e, st1) \<Rightarrow> (Some e, st1)
           | (None, st1) \<Rightarrow> (None, on_result_error str msg kvs st1))
      | _ \<Rightarrow> (Some (no_attribute payload ''get''), st))"

definition on_gdb_event :: "(json \<Rightarrow> string) \<Rightarrow> json \<Rightarrow> session \<times> world
                              \<Rightarrow> exn option \<times> session \<times> world" where
  "on_gdb_event str event st =
     (if \<not> truthy event then (None, st)
      else
        (case event of
           JDict ev \<Rightarrow>
             (let msg_type = dict_get ev ''type'' JNone;
                  msg = dict_get ev ''message'' JNone;
                  payload = dict_get ev ''payload'' (JDict [])
              in if msg_type = JStr ''console'' then (None, send_json event st)
                 else if msg_type = JStr ''notify'' then on_notify str msg payload st
                 else if msg_type = JStr ''result'' then
                   on_result str (dict_get ev ''token'' JNone) msg payload st
                 else (None, st))
         | _ \<Rightarrow> (Some (no_attribute event ''get''), st)))"

section \<open>Client commands (\<^verbatim>\<open>handle_command\<close>)\<close>



section \<open>The read loop (\<^verbatim>\<open>run_event_loop\<close>)\<close>

text \<open>
  The library functions the loop uses: \<^verbatim>\<open>str\<close>, the MI parser, and
  \<^verbatim>\<open>bytes.decode(errors='replace')\<close> followed by \<^verbatim>\<open>strip()\<close>.
\<close>

record lib =
  py_str :: "json \<Rightarrow> string"
  parse_response :: "string \<Rightarrow> json option"
  decode_strip :: "string \<Rightarrow> string"

text \<open>
  \<^verbatim>\<open>while b'\n' in buffer\<close>: the lines of the buffer, one at a time. An exception of the
  event handler leaves the loop with the rest of the buffer.
\<close>

function process_lines :: "lib \<Rightarrow> string \<Rightarrow> session \<times> world
                             \<Rightarrow> exn option \<times> string \<times> session \<times> world" where
  "process_lines L buffer st =
     (if newline \<in> set buffer then
        (let line_bytes = takeWhile (\<lambda>c. c \<noteq> newline) buffer;
             rest = tl (dropWhile (\<lambda>c. c \<noteq> newline) buffer)
         in case parse_line (parse_response L) (decode_strip L line_bytes) of
              None \<Rightarrow> process_lines L rest st
            | Some parsed \<Rightarrow>
                if truthy parsed then
                  (case on_gdb_event (py_str L) parsed st of
                     (None, st1) \<Rightarrow> process_lines L rest st1
                   | (Some e, st1) \<Rightarrow> (Some e, rest, st1))
                else process_lines L rest st)
      else (None, buffer, st))"
  by pat_completeness auto
termination
proof -
  have shorter: "length (tl (dropWhile (\<lambda>c. c \<noteq> newline) buf)) < length buf"
    if h: "newline \<in> set buf" for buf
  proof -
    from h have ne: "dropWhile (\<lambda>c. c \<noteq> newline) buf \<noteq> []"
      by (simp add: dropWhile_eq_Nil_conv)
    have "length (dropWhile (\<lambda>c. c \<noteq> newline) buf) \<le> length buf"
      by (rule length_dropWhile_le)
    with ne show ?thesis
      by (cases "dropWhile (\<lambda>c. c \<noteq> newline) buf") auto
  qed
  show ?thesis
    by (relation "measure (\<lambda>(L, buffer, st). length buffer)")
       (auto simp del: length_tl simp: shorter)
qed

declare process_lines.simps [simp del]



section \<open>Example inputs\<close>

text \<open>A world in which nothing has happened yet and every send succeeds.\<close>

definition quiet_world :: world where
  "quiet_world = \<lparr>sent = [], ws_closed = [], pty_out = [], fd_closed = [], signalled = [],
                   send_oracle = [], clock = []\<rparr>"

text \<open>A session with transport 1 attached and the channel open on descriptor 5.\<close>

definition live_session :: session where
  "live_session =
     (new_session ''s'')\<lparr>wrapper := \<lparr>process = Some 7, running = True, master_fd = Some 5\<rparr>,
                           websocket := Some 1\<rparr>"






text \<open>
  An operating system that hands out the descriptors 5 and 6, knows one binary, and
  spawns process 7.
\<close>

definition example_os :: os_env where
  "example_os = \<lparr>openpty = Inr (5, 6), path_exists = (\<lambda>p. Inr (p = JStr ''/bin/true'')),
                  popen = (\<lambda>cmd. Inr 7), wait_ok = True\<rparr>"


text \<open>A stand-in for \<^verbatim>\<open>str\<close> on values that are no strings.\<close>

definition example_str :: "json \<Rightarrow> string" where
  "example_str v = ''None''"

text \<open>
  A stand-in for the MI parser that knows three kinds of line: console text after \<open>~\<close>,
  log text after \<open>&\<close>, and anything else as output of the debugged program.
\<close>

definition example_parse :: "string \<Rightarrow> json option" where
  "example_parse line =
     (case line of
        [] \<Rightarrow> None
      | c # cs \<Rightarrow>
          if c = CHR ''~'' then
            Some (JDict [(''type'', JStr ''console''), (''message'', JNone), (''payload'', JStr cs)])
          else if c = CHR ''&'' then
            Some (JDict [(''type'', JStr ''log''), (''message'', JNone), (''payload'', JStr cs)])
          else
            Some (JDict [(''type'', JStr ''output''), (''message'', JNone), (''payload'', JStr line)]))"

definition example_lib :: lib where
  "example_lib = \<lparr>py_str = example_str, parse_response = example_parse, decode_strip = (\<lambda>b. b)\<rparr>"

section \<open>Sending and logging: what they leave alone\<close>

lemma send_json_session_fields:
  "status (fst (send_json d st)) = status (fst st)"
  "stack (fst (send_json d st)) = stack (fst st)"
  "variables (fst (send_json d st)) = variables (fst st)"
  "location (fst (send_json d st)) = location (fst st)"
  "log_history (fst (send_json d st)) = log_history (fst st)"
  "wrapper (fst (send_json d st)) = wrapper (fst st)"
  "session_id (fst (send_json d st)) = session_id (fst st)"
  by (cases st; simp split: option.splits list.splits bool.splits)+





lemma log_unfold:
  "log l t (s, w) =
     send_json (log_msg l t (fst (now w)))
       (s\<lparr>log_history := push_history (log_msg l t (fst (now w))) (log_history s)\<rparr>, snd (now w))"
  by (simp only: log.simps Let_def split: prod.splits) simp


lemma log_session_fields:
  "status (fst (log l t st)) = status (fst st)"
  "stack (fst (log l t st)) = stack (fst st)"
  "variables (fst (log l t st)) = variables (fst st)"
  "location (fst (log l t st)) = location (fst st)"
  "wrapper (fst (log l t st)) = wrapper (fst st)"
  "session_id (fst (log l t st)) = session_id (fst st)"
  "log_history (fst (log l t st)) =
     push_history (log_msg l t (fst (now (snd st)))) (log_history (fst st))"
  by (cases st; simp add: log_unfold send_json_session_fields del: log.simps send_json.simps now.simps)+



lemma push_history_length: "length h \<le> 50 \<Longrightarrow> length (push_history m h) \<le> 50"
  by (simp add: push_history_def Let_def)

lemma push_history_fifo:
  "length h \<le> 50 \<Longrightarrow>
   push_history m h = (if length h < 50 then h @ [m] else tl h @ [m])"
  by (cases h) (simp_all add: push_history_def Let_def)

lemma logs_bounded:
  "length (log_history (fst st)) \<le> 50 \<Longrightarrow>
   length (log_history (fst (foldl (\<lambda>st (level, text). log level text st) st entries))) \<le> 50"
proof (induction entries arbitrary: st)
  case Nil
  then show ?case by simp
next
  case (Cons e es)
  obtain l t where e: "e = (l, t)" by (cases e)
  have "length (log_history (fst (log l t st))) \<le> 50"
    using Cons.prems by (simp add: log_session_fields push_history_length)
  from Cons.IH [OF this] show ?case by (simp add: e del: log.simps)
qed

section \<open>The log history is bounded\<close>

text \<open>
  C8. From a history of at most 50 entries (a new session has none), every sequence of
  log appends leaves at most 50 entries. One append puts the new entry last; when the
  history is full, the entry it drops is the first one, the oldest, and the others keep
  their order.
\<close>

theorem log_history_bounded:
  assumes "length (log_history (fst st)) \<le> 50"
  shows "length (log_history (fst (foldl (\<lambda>st (level, text). log level text st) st entries))) \<le> 50
       \<and> length (log_history (fst (log level text st))) \<le> 50
       \<and> log_history (fst (log level text st)) =
           (if length (log_history (fst st)) < 50 then log_history (fst st)
            else tl (log_history (fst st)))
           @ [log_msg level text (fst (now (snd st)))]"
  using assms
  by (simp add: logs_bounded log_session_fields push_history_length push_history_fifo
           del: log.simps now.simps)

theorem log_history_bounded_witness:
  "length (log_history (fst ((new_session ''s'')\<lparr>log_history := replicate 50 JNone\<rparr>, quiet_world))) \<le> 50
   \<and> length (log_history (fst (foldl (\<lambda>st (level, text). log level text st)
               ((new_session ''s'')\<lparr>log_history := replicate 50 JNone\<rparr>, quiet_world)
               [(''info'', ''a''), (''error'', ''b'')]))) \<le> 50
   \<and> log_history (fst (log ''info'' ''a''
         ((new_session ''s'')\<lparr>log_history := replicate 50 JNone\<rparr>, quiet_world))) =
       replicate 49 JNone @ [log_msg ''info'' ''a'' []]"
  using log_history_bounded [of "((new_session ''s'')\<lparr>log_history := replicate 50 JNone\<rparr>, quiet_world)"
          "[(''info'', ''a''), (''error'', ''b'')]" "''info''" "''a''"]
  by (simp add: quiet_world_def del: log.simps)

section \<open>Writing to the channel\<close>



section \<open>Attaching after a detach\<close>





section \<open>A pause fetches the context\<close>













section \<open>Errors reported by the debugger\<close>









section \<open>Starting fails, stopping\<close>

lemma start_not_found:
  assumes "openpty os = Inr (m, slave_fd)" and "truthy exe" and "path_exists os exe = Inr False"
  shows "start str os exe (c, w) =
           (Some (Exn FileNotFoundError (''Binary not found: '' @ py_format str exe)),
            c\<lparr>master_fd := Some m\<rparr>, w)"
  using assms by (simp add: start_cmd_def Let_def)









text \<open>
  C9. When \<^verbatim>\<open>start\<close> fails because the executable does not exist, nothing is given back:
  no descriptor is closed (the world is as before) and the master descriptor obtained
  from \<^verbatim>\<open>openpty\<close> stays on the channel. The channel then counts as open, and a
  subsequent \<^verbatim>\<open>write\<close> hands its line to \<^verbatim>\<open>os.write\<close> on that descriptor.
\<close>

theorem failed_start_leaves_master_open:
  assumes pty: "openpty os = Inr (m, slave_fd)"
      and exe: "truthy exe"
      and missing: "path_exists os exe = Inr False"
  shows "fst (start str os exe (c, w)) =
           Some (Exn FileNotFoundError (''Binary not found: '' @ py_format str exe))
       \<and> master_fd (fst (snd (start str os exe (c, w)))) = Some m
       \<and> snd (snd (start str os exe (c, w))) = w
       \<and> (m \<noteq> 0 \<longrightarrow>
            is_open (fst (snd (start str os exe (c, w))))
            \<and> snd (write_command command (snd (start str os exe (c, w)))) =
                w\<lparr>pty_out := pty_out w @ [(m, command @ [newline])]\<rparr>)"
  unfolding start_not_found [OF pty exe missing]
  by (simp add: is_open_def)

theorem failed_start_leaves_master_open_witness:
  "openpty example_os = Inr (5, 6)
   \<and> truthy (JStr ''/nonexistent/path'')
   \<and> path_exists example_os (JStr ''/nonexistent/path'') = Inr False
   \<and> \<not> is_open new_controller
   \<and> is_open (fst (snd (start example_str example_os (JStr ''/nonexistent/path'')
                           (new_controller, quiet_world))))
   \<and> fd_closed (snd (snd (start example_str example_os (JStr ''/nonexistent/path'')
                             (new_controller, quiet_world)))) = []
   \<and> pty_out (snd (write_command ''-exec-run''
                      (snd (start example_str example_os (JStr ''/nonexistent/path'')
                              (new_controller, quiet_world)))))
       = [(5, ''-exec-run'' @ [newline])]"
  using failed_start_leaves_master_open
          [of example_os 5 6 "JStr ''/nonexistent/path''" example_str new_controller quiet_world
              "''-exec-run''"]
  by (simp add: example_os_def new_controller_def quiet_world_def is_open_def
           del: start.simps write_command.simps)




section \<open>What the parser drops\<close>

lemma parse_line_output:
  assumes "P line = Some (JDict kvs)" and "map_of kvs ''type'' = Some (JStr ''output'')"
  shows "parse_line P line = None"
proof -
  have "kvs \<noteq> []" using assms(2) by auto
  then show ?thesis using assms by (simp add: parse_line_def)
qed

lemma parse_line_log:
  assumes "P line = Some (JDict kvs)" and "map_of kvs ''type'' = Some (JStr ''log'')"
  shows "parse_line P line = Some (JDict kvs)"
proof -
  have "kvs \<noteq> []" using assms(2) by auto
  then show ?thesis using assms by (simp add: parse_line_def)
qed

lemma log_event_ignored:
  assumes "map_of kvs ''type'' = Some (JStr ''log'')"
  shows "on_gdb_event str (JDict kvs) st = (None, st)"
proof -
  have "kvs \<noteq> []" using assms by auto
  then show ?thesis using assms by (simp add: on_gdb_event_def dict_get_def Let_def)
qed

lemma split_one_line:
  assumes "newline \<notin> set line"
  shows "takeWhile (\<lambda>c. c \<noteq> newline) (line @ newline # rest) = line"
    and "tl (dropWhile (\<lambda>c. c \<noteq> newline) (line @ newline # rest)) = rest"
  using assms by (induction line) auto

text \<open>
  C7, as the code has it. The category of a line is the \<^verbatim>\<open>type\<close> of the record the MI parser
  returns for it. For an output record the parser produces no event. A log record is
  no case of the parser: it is returned as it is, and the read loop hands it to the event
  handler, which knows no such type and changes nothing. Either way a line of these two
  kinds passes through the read loop without any effect on the session or the world.
\<close>

theorem output_dropped_log_passed_on:
  "(parse_response L line = Some (JDict kvs) \<and> map_of kvs ''type'' = Some (JStr ''output'')
      \<longrightarrow> parse_line (parse_response L) line = None)
   \<and> (parse_response L line = Some (JDict kvs) \<and> map_of kvs ''type'' = Some (JStr ''log'')
      \<longrightarrow> parse_line (parse_response L) line = Some (JDict kvs)
          \<and> on_gdb_event (py_str L) (JDict kvs) st = (None, st))
   \<and> (newline \<notin> set raw \<and> parse_response L (decode_strip L raw) = Some (JDict kvs)
       \<and> map_of kvs ''type'' \<in> {Some (JStr ''output''), Some (JStr ''log'')}
      \<longrightarrow> process_lines L (raw @ [newline]) st = (None, [], st))"
proof -
  have loop: "process_lines L (raw @ [newline]) st = (None, [], st)"
    if nl: "newline \<notin> set raw" and p: "parse_response L (decode_strip L raw) = Some (JDict kvs)"
      and ty: "map_of kvs ''type'' \<in> {Some (JStr ''output''), Some (JStr ''log'')}"
  proof -
    have ne: "kvs \<noteq> []" using ty by auto
    have e: "process_lines L [] st = (None, [], st)"
      by (subst process_lines.simps) simp
    from ty consider "map_of kvs ''type'' = Some (JStr ''output'')"
      | "map_of kvs ''type'' = Some (JStr ''log'')" by auto
    then show ?thesis
    proof cases
      case 1
      show ?thesis
        by (subst process_lines.simps)
           (simp add: split_one_line [OF nl] parse_line_output [of "parse_response L" "decode_strip L raw" kvs, OF p 1] e Let_def)
    next
      case 2
      show ?thesis
        using ne
        by (subst process_lines.simps)
           (simp add: split_one_line [OF nl] parse_line_log [of "parse_response L" "decode_strip L raw" kvs, OF p 2] log_event_ignored [OF 2]
                      e Let_def)
    qed
  qed
  show ?thesis
    using loop parse_line_output [of "parse_response L" line kvs]
      parse_line_log [of "parse_response L" line kvs] log_event_ignored [of kvs "py_str L" st]
    by (intro conjI impI) (simp_all only: simp_thms)
qed

theorem output_dropped_log_passed_on_witness:
  "parse_response example_lib ''hello'' =
      Some (JDict [(''type'', JStr ''output''), (''message'', JNone), (''payload'', JStr ''hello'')])
   \<and> parse_response example_lib ''&warning'' =
      Some (JDict [(''type'', JStr ''log''), (''message'', JNone), (''payload'', JStr ''warning'')])
   \<and> newline \<notin> set ''&warning''
   \<and> parse_line (parse_response example_lib) ''hello'' = None
   \<and> parse_line (parse_response example_lib) ''&warning'' =
      Some (JDict [(''type'', JStr ''log''), (''message'', JNone), (''payload'', JStr ''warning'')])
   \<and> process_lines example_lib (''&warning'' @ [newline]) (live_session, quiet_world) =
      (None, [], live_session, quiet_world)"
  using output_dropped_log_passed_on
          [of example_lib "''hello''"
              "[(''type'', JStr ''output''), (''message'', JNone), (''payload'', JStr ''hello'')]"
              "(live_session, quiet_world)" "''hello''"]
        output_dropped_log_passed_on
          [of example_lib "''&warning''"
              "[(''type'', JStr ''log''), (''message'', JNone), (''payload'', JStr ''warning'')]"
              "(live_session, quiet_world)" "''&warning''"]
  by (simp add: example_lib_def example_parse_def newline_def)

text \<open>
  C7 as stated fails: for a line that the MI parser classifies as a log record, the
  parser produces an event, the record itself.
\<close>

theorem log_record_is_dispatched_counterexample:
  "parse_line (\<lambda>line. Some (JDict [(''type'', JStr ''log''), (''message'', JNone),
                                      (''payload'', JStr ''warning'')]))
     ''&warning''
   = Some (JDict [(''type'', JStr ''log''), (''message'', JNone), (''payload'', JStr ''warning'')])"
  by (simp add: parse_line_def)

section \<open>End of stream\<close>







end
